theory Spec2Isabelle
  imports Complex_Main "HOL-Library.Sublist"
begin

text \<open>
  A shallow embedding of the orchestration core of the interview simulator: the
  evaluation normalizer and the follow-up policy of \<open>agents/base_agent.py\<close>, the score
  levels and tables of \<open>config.py\<close>, the session and candidate memories of
  \<open>core/memory.py\<close>, the panel's normalizer of \<open>agents/committee_agent.py\<close> and the
  round and interview drivers of \<open>core/workflow.py\<close>. Exceptions are values of the type
  \<open>error\<close>; a function that can raise returns \<open>error + 'a\<close>.
\<close>

section \<open>Python values\<close>

text \<open>
  A Python \<open>str\<close> is a sequence of Unicode code points: \<open>len\<close>, \<open>in\<close> and \<open>strip\<close> all
  work on code points, so a string is modelled as the list of its code points. The
  Chinese literals of the source are written out as code points; ASCII literals go
  through \<open>ascii\<close>.
\<close>

type_synonym pystr = "nat list"

definition ascii :: "string \<Rightarrow> pystr" where
  "ascii s = map of_char s"

text \<open>
  A Python \<open>float\<close> is modelled by the rational it denotes, or one of the three
  non-finite values (which \<open>json.loads\<close> also produces: it accepts \<open>NaN\<close> and
  \<open>Infinity\<close>, and reads \<open>1e999\<close> as infinity). Rounding error of float arithmetic
  is not modelled: arithmetic on finite floats is exact.
\<close>

datatype pyfloat = Finite rat | NaN | PosInf | NegInf

text \<open>What \<open>json.loads\<close> returns: any JSON value, not only an object.\<close>

datatype json =
    JNull
  | JBool bool
  | JInt int
  | JFloat pyfloat
  | JStr pystr
  | JList "json list"
  | JDict "(pystr \<times> json) list"

datatype error =
  AttributeError | TypeError | ValueError | OverflowError | KeyError | ZeroDivisionError

text \<open>\<open>key in x\<close> for a string key: dictionary keys, list elements, substring of a
  string; the other JSON values are not iterable.\<close>

fun py_in :: "pystr \<Rightarrow> json \<Rightarrow> error + bool" where
  "py_in k (JDict d) = Inr (k \<in> fst ` set d)"
| "py_in k (JList xs) = Inr (JStr k \<in> set xs)"
| "py_in k (JStr s) = Inr (sublist k s)"
| "py_in k _ = Inl TypeError"

text \<open>\<open>d.get(key, default)\<close> on a dictionary, and on any value: only a dictionary has
  the method.\<close>

definition dict_get :: "(pystr \<times> json) list \<Rightarrow> pystr \<Rightarrow> json \<Rightarrow> json" where
  "dict_get d k dflt = (case map_of d k of None \<Rightarrow> dflt | Some v \<Rightarrow> v)"

fun py_get :: "json \<Rightarrow> pystr \<Rightarrow> json \<Rightarrow> error + json" where
  "py_get (JDict d) k dflt = Inr (dict_get d k dflt)"
| "py_get _ k dflt = Inl AttributeError"

text \<open>\<open>isinstance(x, (int, float))\<close>: \<open>bool\<close> is a subclass of \<open>int\<close>.\<close>

fun is_int_or_float :: "json \<Rightarrow> bool" where
  "is_int_or_float (JInt n) = True"
| "is_int_or_float (JBool b) = True"
| "is_int_or_float (JFloat x) = True"
| "is_int_or_float _ = False"

definition trunc :: "rat \<Rightarrow> int" where
  "trunc q = (if 0 \<le> q then \<lfloor>q\<rfloor> else \<lceil>q\<rceil>)"

text \<open>\<open>int(x)\<close> on a number: truncation towards zero; \<open>int(nan)\<close> raises ValueError and
  \<open>int(inf)\<close> raises OverflowError. It is only called on values that passed the
  \<open>isinstance\<close> test.\<close>

fun py_int :: "json \<Rightarrow> error + int" where
  "py_int (JInt n) = Inr n"
| "py_int (JBool b) = Inr (if b then 1 else 0)"
| "py_int (JFloat (Finite q)) = Inr (trunc q)"
| "py_int (JFloat NaN) = Inl ValueError"
| "py_int (JFloat PosInf) = Inl OverflowError"
| "py_int (JFloat NegInf) = Inl OverflowError"
| "py_int _ = Inl TypeError"

text \<open>The items a \<open>for\<close> loop or a comprehension draws from a value: the elements of a
  list, the one-character strings of a string, the keys of a dictionary; the other
  values raise TypeError.\<close>

fun py_iter :: "json \<Rightarrow> error + json list" where
  "py_iter (JList xs) = Inr xs"
| "py_iter (JStr s) = Inr (map (\<lambda>c. JStr [c]) s)"
| "py_iter (JDict d) = Inr (map (\<lambda>kv. JStr (fst kv)) d)"
| "py_iter _ = Inl TypeError"

section \<open>config.py\<close>

definition SCORE_MIN :: int where "SCORE_MIN = 0"
definition SCORE_MAX :: int where "SCORE_MAX = 10"

definition WEAKNESS_TAGS_BY_CATEGORY :: "(pystr \<times> pystr list) list" where
  "WEAKNESS_TAGS_BY_CATEGORY =
    [([34920, 36798, 19982, 32467, 26500],
      [[32467, 26500, 19981, 28165, 26224],
       [34920, 36798, 20887, 38271],
       [36923, 36753, 19981, 36830, 36143],
       [32570, 23569, 20855, 20307, 26696, 20363]]),
     ([25216, 26415, 33021, 21147],
      [[32479, 35745, 22522, 30784, 34180, 24369],
       [83, 81, 76, 32454, 33410, 27424, 32570],
       [80, 121, 116, 104, 111, 110, 33021, 21147, 24453, 21152, 24378],
       [23454, 39564, 35774, 35745, 19981, 23436, 25972],
       [25351, 26631, 29702, 35299, 19981, 28145]]),
     ([19994, 21153, 29702, 35299],
      [[32570, 23569, 19994, 21153, 35270, 35282],
       [19982, 23703, 20301, 19981, 22815, 30456, 20851],
       [32570, 23569, 33853, 22320, 32467, 26524],
       [32570, 20047, 25968, 25454, 24605, 32500],
       [19994, 21153, 25935, 24863, 24230, 19981, 36275]]),
     ([36719, 25216, 33021],
      [[27807, 36890, 34920, 36798, 24453, 21152, 24378],
       [39033, 30446, 28145, 24230, 19981, 22815],
       [26696, 20363, 20934, 22791, 19981, 20805, 20998],
       [33258, 25105, 35748, 30693, 19981, 36275],
       [22242, 38431, 21327, 20316, 32463, 39564, 23569]])]"

definition STRENGTH_TAGS_BY_CATEGORY :: "(pystr \<times> pystr list) list" where
  "STRENGTH_TAGS_BY_CATEGORY =
    [([34920, 36798, 19982, 32467, 26500],
      [[32467, 26500, 28165, 26224],
       [34920, 36798, 31616, 27905],
       [36923, 36753, 20005, 35880],
       [26696, 20363, 20855, 20307, 29983, 21160]]),
     ([25216, 26415, 33021, 21147],
      [[32479, 35745, 21151, 24213, 25166, 23454],
       [83, 81, 76, 33021, 21147, 24378],
       [80, 121, 116, 104, 111, 110, 29087, 32451],
       [23454, 39564, 35774, 35745, 35268, 33539],
       [25351, 26631, 20307, 31995, 28165, 26224]]),
     ([19994, 21153, 29702, 35299],
      [[19994, 21153, 29702, 35299, 28145],
       [25968, 25454, 39537, 21160, 24605, 32500],
       [26377, 33853, 22320, 25104, 26524],
       [25968, 25454, 25935, 24863, 24230, 39640],
       [33021, 20135, 20986, 27934, 23519]]),
     ([36719, 25216, 33021],
      [[27807, 36890, 34920, 36798, 22909],
       [39033, 30446, 32463, 39564, 20016, 23500],
       [23398, 20064, 33021, 21147, 24378],
       [26377, 25104, 38271, 24515, 24577],
       [22242, 38431, 21327, 20316, 22909]])]"

definition WEAKNESS_TAGS :: "pystr list" where
  "WEAKNESS_TAGS = concat (map snd WEAKNESS_TAGS_BY_CATEGORY)"

definition STRENGTH_TAGS :: "pystr list" where
  "STRENGTH_TAGS = concat (map snd STRENGTH_TAGS_BY_CATEGORY)"

section \<open>agents/base\_agent.py: the evaluation normalizer\<close>

text \<open>
  The dictionary \<open>_normalize_evaluation_result\<close> returns has a fixed shape, so it is a
  record. \<open>raw_error\<close> is present only in the fallback record. A tag is kept when
  \<open>t in WEAKNESS_TAGS\<close>, that is when it equals one of the vocabulary's strings, which
  only a string does: the kept tags are stored as strings.
\<close>

record evaluation =
  score :: int
  feedback :: json
  weakness_tags :: "pystr list"
  strength_tags :: "pystr list"
  key_points :: json
  improvement_hint :: json
  raw_error :: "json option"

definition EVAL_ERROR_FEEDBACK :: pystr where
  "EVAL_ERROR_FEEDBACK =
    [35780, 20272, 36807, 31243, 20986, 29616, 38382, 39064, 65292, 35831, 37325, 35797, 12290]"

definition clamp_score :: "int \<Rightarrow> int" where
  "clamp_score n = max SCORE_MIN (min SCORE_MAX n)"

definition normalize_score :: "json \<Rightarrow> error + int" where
  "normalize_score sc =
    (if is_int_or_float sc
     then (case py_int sc of Inl e \<Rightarrow> Inl e | Inr n \<Rightarrow> Inr (clamp_score n))
     else Inr 5)"

definition filter_tags :: "pystr list \<Rightarrow> json \<Rightarrow> error + pystr list" where
  "filter_tags vocabulary tags =
    (case py_iter tags of
       Inl e \<Rightarrow> Inl e
     | Inr items \<Rightarrow> Inr [s. JStr s \<leftarrow> items, s \<in> set vocabulary])"

definition normalize_evaluation_result :: "json \<Rightarrow> error + evaluation" where
  "normalize_evaluation_result result =
    (case py_in (ascii ''error'') result of
       Inl e \<Rightarrow> Inl e
     | Inr True \<Rightarrow>
        (case py_get result (ascii ''raw'') (JStr []) of
           Inl e \<Rightarrow> Inl e
         | Inr raw \<Rightarrow>
            Inr \<lparr>score = 5, feedback = JStr EVAL_ERROR_FEEDBACK, weakness_tags = [],
                 strength_tags = [], key_points = JList [], improvement_hint = JStr [],
                 raw_error = Some raw\<rparr>)
     | Inr False \<Rightarrow>
        (case py_get result (ascii ''score'') (JInt 5) of
           Inl e \<Rightarrow> Inl e
         | Inr sc \<Rightarrow>
        (case normalize_score sc of
           Inl e \<Rightarrow> Inl e
         | Inr s \<Rightarrow>
        (case py_get result (ascii ''weakness_tags'') (JList []) of
           Inl e \<Rightarrow> Inl e
         | Inr wt \<Rightarrow>
        (case filter_tags WEAKNESS_TAGS wt of
           Inl e \<Rightarrow> Inl e
         | Inr ws \<Rightarrow>
        (case py_get result (ascii ''strength_tags'') (JList []) of
           Inl e \<Rightarrow> Inl e
         | Inr st \<Rightarrow>
        (case filter_tags STRENGTH_TAGS st of
           Inl e \<Rightarrow> Inl e
         | Inr ss \<Rightarrow>
        (case py_get result (ascii ''feedback'') (JStr []) of
           Inl e \<Rightarrow> Inl e
         | Inr fb \<Rightarrow>
        (case py_get result (ascii ''key_points'') (JList []) of
           Inl e \<Rightarrow> Inl e
         | Inr kp \<Rightarrow>
        (case py_get result (ascii ''improvement_hint'') (JStr []) of
           Inl e \<Rightarrow> Inl e
         | Inr ih \<Rightarrow>
            Inr \<lparr>score = s, feedback = fb, weakness_tags = ws, strength_tags = ss,
                 key_points = kp, improvement_hint = ih, raw_error = None\<rparr>))))))))))"


section \<open>config.py: follow-up, rounds and score levels\<close>

text \<open>\<open>FOLLOW_UP_CONFIG\<close> is read with \<open>.get(key, default)\<close> everywhere; a field that is
  \<open>None\<close> stands for a missing key.\<close>

record follow_up_config =
  enabled :: "bool option"
  max_follow_ups :: "int option"
  trigger_score_threshold :: "int option"
  trigger_keywords :: "pystr list option"

definition get_or :: "'a option \<Rightarrow> 'a \<Rightarrow> 'a" where
  "get_or v dflt = (case v of None \<Rightarrow> dflt | Some x \<Rightarrow> x)"

definition FOLLOW_UP_CONFIG :: follow_up_config where
  "FOLLOW_UP_CONFIG =
    \<lparr>enabled = Some True, max_follow_ups = Some 1, trigger_score_threshold = Some 6,
     trigger_keywords =
       Some [[19981, 28165, 26970], [19981, 22826, 30830, 23450], [21487, 33021],
             [22823, 27010]]\<rparr>"

record round_config =
  name :: pystr
  weight :: rat
  min_questions :: int
  max_questions :: int
  follow_up_enabled :: bool

definition INTERVIEW_ROUNDS_CONFIG :: "(pystr \<times> round_config) list" where
  "INTERVIEW_ROUNDS_CONFIG =
    [(ascii ''HR'',
      \<lparr>name = [72, 82, 32, 21021, 31579], weight = 15 / 100,
       min_questions = 1, max_questions = 2, follow_up_enabled = True\<rparr>),
     (ascii ''HiringManager'',
      \<lparr>name = [19994, 21153, 29992, 20154, 32463, 29702, 38754, 35797], weight = 25 / 100,
       min_questions = 1, max_questions = 2, follow_up_enabled = True\<rparr>),
     (ascii ''Technical'',
      \<lparr>name = [25216, 26415, 47, 20998, 26512, 38754, 35797], weight = 35 / 100,
       min_questions = 1, max_questions = 2, follow_up_enabled = True\<rparr>),
     (ascii ''CultureFit'',
      \<lparr>name = [25991, 21270, 22865, 21512, 24230, 38754, 35797], weight = 15 / 100,
       min_questions = 1, max_questions = 1, follow_up_enabled = True\<rparr>),
     (ascii ''Committee'',
      \<lparr>name = [32456, 38754, 35780, 23457, 22996, 21592, 20250], weight = 10 / 100,
       min_questions = 0, max_questions = 0, follow_up_enabled = False\<rparr>)]"


record score_level =
  level :: pystr
  emoji :: pystr
  level_decision :: pystr

definition SCORE_LEVELS :: "((int \<times> int) \<times> score_level) list" where
  "SCORE_LEVELS =
    [((9, 10), \<lparr>level = [20248, 31168], emoji = [127775],
                level_decision = [24378, 28872, 25512, 33616]\<rparr>),
     ((7, 8), \<lparr>level = [33391, 22909], emoji = [128077],
               level_decision = [25512, 33616, 36890, 36807]\<rparr>),
     ((5, 6), \<lparr>level = [20013, 31561], emoji = [128170],
               level_decision = [20505, 34917, 47, 35266, 23519]\<rparr>),
     ((3, 4), \<lparr>level = [24453, 25552, 21319], emoji = [128218],
               level_decision = [26242, 19981, 25512, 33616]\<rparr>),
     ((0, 2), \<lparr>level = [19981, 36275], emoji = [9888, 65039],
               level_decision = [19981, 36890, 36807]\<rparr>)]"

text \<open>The comparisons \<open>low <= score\<close> and \<open>score <= high\<close> between an \<open>int\<close> and a number:
  every comparison with NaN is false.\<close>

fun int_le_float :: "int \<Rightarrow> pyfloat \<Rightarrow> bool" where
  "int_le_float n (Finite q) = (of_int n \<le> q)"
| "int_le_float n PosInf = True"
| "int_le_float n NegInf = False"
| "int_le_float n NaN = False"

fun float_le_int :: "pyfloat \<Rightarrow> int \<Rightarrow> bool" where
  "float_le_int (Finite q) n = (q \<le> of_int n)"
| "float_le_int PosInf n = False"
| "float_le_int NegInf n = True"
| "float_le_int NaN n = False"

text \<open>\<open>get_score_level\<close>: the first band, in the table's order, that holds the score;
  when the loop ends without a match, the entry under the key \<open>(5, 6)\<close>, a dictionary
  lookup that would raise KeyError were the key missing. An \<open>int\<close> score is passed as
  the float of the same value.\<close>

definition get_score_level :: "pyfloat \<Rightarrow> error + score_level" where
  "get_score_level s =
    (case find (\<lambda>band. int_le_float (fst (fst band)) s \<and> float_le_int s (snd (fst band)))
            SCORE_LEVELS of
       Some band \<Rightarrow> Inr (snd band)
     | None \<Rightarrow>
        (case map_of SCORE_LEVELS (5, 6) of
           None \<Rightarrow> Inl KeyError
         | Some info \<Rightarrow> Inr info))"

section \<open>agents/base\_agent.py: the follow-up policy\<close>

text \<open>\<open>str.isspace\<close> of a code point, and \<open>str.strip()\<close>.\<close>

definition py_isspace :: "nat \<Rightarrow> bool" where
  "py_isspace c \<longleftrightarrow>
    (9 \<le> c \<and> c \<le> 13) \<or> (28 \<le> c \<and> c \<le> 32) \<or> c = 133 \<or> c = 160 \<or> c = 5760 \<or>
    (8192 \<le> c \<and> c \<le> 8202) \<or> c = 8232 \<or> c = 8233 \<or> c = 8239 \<or> c = 8287 \<or> c = 12288"

definition strip :: "pystr \<Rightarrow> pystr" where
  "strip s = rev (dropWhile py_isspace (rev (dropWhile py_isspace s)))"

definition REASON_MORE_DETAIL :: pystr where
  "REASON_MORE_DETAIL = [22238, 31572, 38656, 35201, 26356, 22810, 32454, 33410]"

definition reason_keyword :: "pystr \<Rightarrow> pystr" where
  "reason_keyword keyword =
    [22238, 31572, 20013, 25552, 21040, 12300] @ keyword @
    [12301, 65292, 38656, 35201, 28548, 28165]"

definition REASON_TOO_BRIEF :: pystr where
  "REASON_TOO_BRIEF = [22238, 31572, 36739, 31616, 30701, 65292, 21487, 20197, 23637, 24320]"

text \<open>
  \<open>should_follow_up\<close>, with the configuration it reads made a parameter. The
  evaluation is a normalized record, which always has a score, so the default of
  \<open>evaluation.get("score", 10)\<close> is never taken. \<open>keyword in answer\<close> is the substring
  test; the loop returns at the first keyword, in the list's order, that occurs.
\<close>

definition should_follow_up_with ::
    "follow_up_config \<Rightarrow> pystr \<Rightarrow> evaluation \<Rightarrow> bool \<times> pystr" where
  "should_follow_up_with cfg ans ev =
    (if \<not> get_or (enabled cfg) False then (False, [])
     else if score ev < get_or (trigger_score_threshold cfg) 6 then (True, REASON_MORE_DETAIL)
     else
       (case find (\<lambda>keyword. sublist keyword ans) (get_or (trigger_keywords cfg) []) of
          Some keyword \<Rightarrow> (True, reason_keyword keyword)
        | None \<Rightarrow>
           if length (strip ans) < 50 then (True, REASON_TOO_BRIEF) else (False, [])))"

definition should_follow_up :: "pystr \<Rightarrow> evaluation \<Rightarrow> bool \<times> pystr" where
  "should_follow_up ans ev = should_follow_up_with FOLLOW_UP_CONFIG ans ev"

section \<open>Numbers: truthiness, rounding and arithmetic on JSON values\<close>

text \<open>The truth value Python gives a JSON value in \<open>if x\<close> and \<open>x or y\<close>.\<close>

fun py_truthy :: "json \<Rightarrow> bool" where
  "py_truthy JNull = False"
| "py_truthy (JBool b) = b"
| "py_truthy (JInt n) = (n \<noteq> 0)"
| "py_truthy (JFloat (Finite q)) = (q \<noteq> 0)"
| "py_truthy (JFloat _) = True"
| "py_truthy (JStr s) = (s \<noteq> [])"
| "py_truthy (JList xs) = (xs \<noteq> [])"
| "py_truthy (JDict d) = (d \<noteq> [])"

text \<open>\<open>round(x, 2)\<close>: to the nearest multiple of 1/100, a tie going to the even one.\<close>

definition round_half_even :: "rat \<Rightarrow> int" where
  "round_half_even q =
    (let n = \<lfloor>q\<rfloor>; f = q - of_int n
     in if f < 1 / 2 then n else if 1 / 2 < f then n + 1 else if even n then n else n + 1)"

definition round2 :: "rat \<Rightarrow> rat" where
  "round2 q = of_int (round_half_even (q * 100)) / 100"

fun py_round2 :: "pyfloat \<Rightarrow> pyfloat" where
  "py_round2 (Finite q) = Finite (round2 q)"
| "py_round2 x = x"

text \<open>The number an arithmetic operator reads from a value; the operators raise
  TypeError on the other values.\<close>

fun py_number :: "json \<Rightarrow> error + pyfloat" where
  "py_number (JInt n) = Inr (Finite (of_int n))"
| "py_number (JBool b) = Inr (Finite (if b then 1 else 0))"
| "py_number (JFloat x) = Inr x"
| "py_number _ = Inl TypeError"

fun float_add :: "pyfloat \<Rightarrow> pyfloat \<Rightarrow> pyfloat" where
  "float_add (Finite a) (Finite b) = Finite (a + b)"
| "float_add NaN _ = NaN"
| "float_add _ NaN = NaN"
| "float_add PosInf NegInf = NaN"
| "float_add NegInf PosInf = NaN"
| "float_add PosInf _ = PosInf"
| "float_add _ PosInf = PosInf"
| "float_add NegInf _ = NegInf"
| "float_add _ NegInf = NegInf"

fun float_less :: "pyfloat \<Rightarrow> pyfloat \<Rightarrow> bool" where
  "float_less (Finite a) (Finite b) = (a < b)"
| "float_less NaN _ = False"
| "float_less _ NaN = False"
| "float_less NegInf NegInf = False"
| "float_less NegInf _ = True"
| "float_less _ NegInf = False"
| "float_less PosInf _ = False"
| "float_less _ PosInf = True"

text \<open>Division by a positive count, as in \<open>sum(scores) / len(scores)\<close>.\<close>

fun float_div :: "pyfloat \<Rightarrow> nat \<Rightarrow> error + pyfloat" where
  "float_div x 0 = Inl ZeroDivisionError"
| "float_div (Finite q) n = Inr (Finite (q / of_nat n))"
| "float_div x n = Inr x"

text \<open>\<open>sum(xs)\<close>: starts from 0 and adds the items from the left.\<close>

fun py_sum_from :: "pyfloat \<Rightarrow> json list \<Rightarrow> error + pyfloat" where
  "py_sum_from acc [] = Inr acc"
| "py_sum_from acc (x # xs) =
    (case py_number x of Inl e \<Rightarrow> Inl e | Inr v \<Rightarrow> py_sum_from (float_add acc v) xs)"

definition py_sum :: "json list \<Rightarrow> error + pyfloat" where
  "py_sum xs = py_sum_from (Finite 0) xs"

text \<open>\<open>max(xs)\<close>: keeps the first item and replaces it by each later item that is
  greater; the result is the item itself. It is only reached after \<open>sum\<close> has
  accepted the same list, so the items are numbers.\<close>

fun py_max_from :: "json \<Rightarrow> json list \<Rightarrow> error + json" where
  "py_max_from best [] = Inr best"
| "py_max_from best (x # xs) =
    (case py_number x of
       Inl e \<Rightarrow> Inl e
     | Inr a \<Rightarrow>
        (case py_number best of
           Inl e \<Rightarrow> Inl e
         | Inr b \<Rightarrow> py_max_from (if float_less b a then x else best) xs))"

fun py_max :: "json list \<Rightarrow> error + json" where
  "py_max [] = Inl ValueError"
| "py_max (x # xs) = py_max_from x xs"




section \<open>core/llm\_client.py: parsing the reply\<close>

text \<open>
  \<open>_parse_json_response\<close>, with \<open>json.loads\<close> as a parameter: \<open>loads\<close> gives the parsed
  value, or \<open>None\<close> where \<open>json.loads\<close> raises JSONDecodeError. The reply is stripped,
  freed of a Markdown code fence and parsed; failing that, the text from the first
  opening brace to the last closing brace is parsed, then the text from the first
  opening bracket to the last closing bracket; failing all, the error sentinel is
  returned. Whatever \<open>loads\<close> yields is returned as it is.
\<close>

definition clean_response :: "pystr \<Rightarrow> pystr" where
  "clean_response response =
    (let r = strip response;
         r1 = (if prefix (ascii ''```json'') r then drop 7 r
               else if prefix (ascii ''```'') r then drop 3 r
               else r);
         r2 = (if suffix (ascii ''```'') r1 then take (length r1 - 3) r1 else r1)
     in strip r2)"

text \<open>\<open>response[start:end]\<close> for \<open>start = response.find(opening)\<close> and
  \<open>end = response.rfind(closing) + 1\<close>, when \<open>start != -1 and end > start\<close>.\<close>

definition py_find :: "nat \<Rightarrow> pystr \<Rightarrow> int" where
  "py_find c s = (if c \<in> set s then int (length (takeWhile (\<lambda>x. x \<noteq> c) s)) else - 1)"

definition py_rfind :: "nat \<Rightarrow> pystr \<Rightarrow> int" where
  "py_rfind c s =
    (if c \<in> set s then int (length s) - 1 - int (length (takeWhile (\<lambda>x. x \<noteq> c) (rev s)))
     else - 1)"

definition extract_between :: "nat \<Rightarrow> nat \<Rightarrow> pystr \<Rightarrow> pystr option" where
  "extract_between opening closing response =
    (let start = py_find opening response;
         end_index = py_rfind closing response + 1
     in if start \<noteq> - 1 \<and> start < end_index
        then Some (drop (nat start) (take (nat end_index) response))
        else None)"

definition JSON_PARSE_FAILED :: pystr where
  "JSON_PARSE_FAILED = [74, 83, 79, 78, 35299, 26512, 22833, 36133]"

definition parse_json_response :: "(pystr \<Rightarrow> json option) \<Rightarrow> pystr \<Rightarrow> json" where
  "parse_json_response loads response =
    (let r = clean_response response
     in (case loads r of
           Some v \<Rightarrow> v
         | None \<Rightarrow>
        (case (case extract_between 123 125 r of None \<Rightarrow> None | Some part \<Rightarrow> loads part) of
           Some v \<Rightarrow> v
         | None \<Rightarrow>
        (case (case extract_between 91 93 r of None \<Rightarrow> None | Some part \<Rightarrow> loads part) of
           Some v \<Rightarrow> v
         | None \<Rightarrow>
            JDict [(ascii ''error'', JStr JSON_PARSE_FAILED), (ascii ''raw'', JStr response)]))))"

text \<open>A \<open>json.loads\<close> that knows one text, the array \<open>[1, 2]\<close>.\<close>

definition example_loads :: "pystr \<Rightarrow> json option" where
  "example_loads text =
    (if text = ascii ''[1, 2]'' then Some (JList [JInt 1, JInt 2]) else None)"

section \<open>core/memory.py: the session memory\<close>

record round_result =
  role :: pystr
  question :: pystr
  answer :: pystr
  round_score :: int
  round_feedback :: json
  round_weakness_tags :: "pystr list"
  round_strength_tags :: "pystr list"
  round_key_points :: json
  round_improvement_hint :: json
  is_follow_up :: bool
  timestamp :: pystr

text \<open>The dictionary \<open>_normalize_final_evaluation\<close> returns; \<open>comparative_analysis\<close> is
  the key \<open>run_committee_evaluation\<close> may add, \<open>final_raw_error\<close> the key \<open>raw_error\<close> of
  the fallback.\<close>

record panel_evaluation =
  final_score :: json
  decision :: json
  decision_reason :: json
  overall_feedback :: json
  dimension_scores :: json
  key_strengths :: json
  key_weaknesses :: json
  improvement_suggestions :: json
  practice_focus :: json
  next_steps :: json
  comparative_analysis :: "pystr option"
  final_raw_error :: "json option"

record session_memory =
  user_id :: pystr
  position :: pystr
  started_at :: pystr
  rounds :: "round_result list"
  final_evaluation :: "panel_evaluation option"


text \<open>\<open>add_round\<close>: \<open>weakness_tags or []\<close> leaves a list as it is; \<open>key_points or []\<close>
  replaces a falsy value by the empty list. The time stamp is read from the clock.\<close>

definition add_round ::
    "session_memory \<Rightarrow> pystr \<Rightarrow> pystr \<Rightarrow> pystr \<Rightarrow> int \<Rightarrow> json \<Rightarrow> pystr list \<Rightarrow> pystr list \<Rightarrow>
     json \<Rightarrow> json \<Rightarrow> bool \<Rightarrow> pystr \<Rightarrow> session_memory" where
  "add_round s rl q a sc fb wts sts kps hint fu now =
    s\<lparr>rounds := rounds s @
        [\<lparr>role = rl, question = q, answer = a, round_score = sc, round_feedback = fb,
          round_weakness_tags = wts, round_strength_tags = sts,
          round_key_points = (if py_truthy kps then kps else JList []),
          round_improvement_hint = hint, is_follow_up = fu, timestamp = now\<rparr>]\<rparr>"





section \<open>core/workflow.py: one round\<close>

text \<open>
  The generation capability, the candidate and the clock are outside the program: what
  they return during one round is an input of the model. Prompt texts are built from
  the state and handed to the capability; their construction is not modelled (the
  specification treats prompt templates as part of the opaque capability), and the
  observer callbacks are left out.
\<close>

record round_io =
  io_question :: pystr
  io_answer :: pystr
  io_result :: json
  io_time :: pystr
  io_follow_up_question :: pystr
  io_follow_up_answer :: pystr
  io_follow_up_result :: json
  io_follow_up_time :: pystr

record agent =
  agent_role :: pystr

text \<open>Modelled from the spec: the classes HiringManagerAgent, TechnicalAgent and
  CultureFitAgent are not among the sources; like \<open>HRAgent\<close>, which sets \<open>role="HR"\<close> and
  inherits evaluation and follow-up policy from \<open>BaseAgent\<close>, each is taken to carry
  its key of the \<open>agents\<close> table as its role.\<close>

definition agents :: "(pystr \<times> agent) list" where
  "agents =
    [(ascii ''HR'', \<lparr>agent_role = ascii ''HR''\<rparr>),
     (ascii ''HiringManager'', \<lparr>agent_role = ascii ''HiringManager''\<rparr>),
     (ascii ''Technical'', \<lparr>agent_role = ascii ''Technical''\<rparr>),
     (ascii ''CultureFit'', \<lparr>agent_role = ascii ''CultureFit''\<rparr>)]"


definition get_round_name :: "pystr \<Rightarrow> pystr" where
  "get_round_name key =
    (case map_of INTERVIEW_ROUNDS_CONFIG key of None \<Rightarrow> key | Some config \<Rightarrow> name config)"


record question_entry =
  entry_question :: pystr
  entry_answer :: pystr
  entry_evaluation :: evaluation
  entry_is_follow_up :: bool
  follow_up_reason :: "pystr option"

record round_outcome =
  round_key :: pystr
  round_name :: pystr
  questions :: "question_entry list"
  round_final_score :: int

definition evaluate_answer :: "json \<Rightarrow> error + evaluation" where
  "evaluate_answer generated = normalize_evaluation_result generated"

definition FOLLOWUP_SUFFIX :: pystr where
  "FOLLOWUP_SUFFIX = ascii ''_followup''"

text \<open>\<open>_handle_follow_up\<close>: an exception of the evaluation leaves the session as it
  was; otherwise one follow-up round is recorded and its entry returned.\<close>

definition handle_follow_up ::
    "agent \<Rightarrow> pystr \<Rightarrow> session_memory \<Rightarrow> round_io \<Rightarrow> session_memory \<times> (error + question_entry)"
    where
  "handle_follow_up ag reason s io =
    (case evaluate_answer (io_follow_up_result io) of
       Inl e \<Rightarrow> (s, Inl e)
     | Inr follow_up_eval \<Rightarrow>
        (add_round s (agent_role ag @ FOLLOWUP_SUFFIX) (io_follow_up_question io)
           (io_follow_up_answer io) (score follow_up_eval) (feedback follow_up_eval)
           (weakness_tags follow_up_eval) (strength_tags follow_up_eval)
           (key_points follow_up_eval) (improvement_hint follow_up_eval) True
           (io_follow_up_time io),
         Inr \<lparr>entry_question = io_follow_up_question io,
              entry_answer = io_follow_up_answer io,
              entry_evaluation = follow_up_eval, entry_is_follow_up = True,
              follow_up_reason = Some reason\<rparr>))"

text \<open>\<open>run_single_round\<close> returns the session as the round left it, and either the
  exception that ended the round or its result. The dictionary \<open>_handle_follow_up\<close>
  returns is never empty, so the test \<open>if follow_up_result\<close> always succeeds.\<close>

definition run_single_round ::
    "pystr \<Rightarrow> session_memory \<Rightarrow> round_io \<Rightarrow> session_memory \<times> (error + round_outcome)" where
  "run_single_round agent_key s io =
    (case map_of agents agent_key of
       None \<Rightarrow> (s, Inl KeyError)
     | Some ag \<Rightarrow>
        (case evaluate_answer (io_result io) of
           Inl e \<Rightarrow> (s, Inl e)
         | Inr ev \<Rightarrow>
            (let s1 = add_round s agent_key (io_question io) (io_answer io) (score ev)
                        (feedback ev) (weakness_tags ev) (strength_tags ev) (key_points ev)
                        (improvement_hint ev) False (io_time io);
                 result = \<lparr>round_key = agent_key, round_name = get_round_name agent_key,
                            questions = [\<lparr>entry_question = io_question io,
                                          entry_answer = io_answer io,
                                          entry_evaluation = ev,
                                          entry_is_follow_up = False,
                                          follow_up_reason = None\<rparr>],
                            round_final_score = score ev\<rparr>
             in if (case map_of INTERVIEW_ROUNDS_CONFIG agent_key of
                      None \<Rightarrow> False | Some config \<Rightarrow> follow_up_enabled config)
                then
                  (case should_follow_up (io_answer io) ev of
                     (should_follow, reason) \<Rightarrow>
                       if should_follow \<and> get_or (enabled FOLLOW_UP_CONFIG) False
                       then
                         (case handle_follow_up ag reason s1 io of
                            (s2, Inl e) \<Rightarrow> (s2, Inl e)
                          | (s2, Inr follow_up_result) \<Rightarrow>
                              (s2, Inr (result
                                 \<lparr>questions := questions result @ [follow_up_result],
                                  round_final_score :=
                                    score (entry_evaluation follow_up_result)\<rparr>)))
                       else (s1, Inr result))
                else (s1, Inr result))))"



section \<open>agents/committee\_agent.py: the panel's evaluation\<close>









section \<open>core/memory.py: the candidate's memory\<close>

record statistics =
  total_interviews :: int
  stats_average_score :: pyfloat
  best_score :: json
  recent_trend :: pystr
  most_common_weakness :: pystr
  most_common_strength :: pystr

text \<open>The profile of a candidate: the fields the workflow reads or writes (name,
  skills and the other free-form attributes are only quoted in prompts). A history
  entry is a dictionary as it is stored; the tag counts are integers.\<close>

record user_memory =
  memory_user_id :: pystr
  updated_at :: pystr
  memory_weakness_tags :: "(pystr \<times> int) list"
  memory_strength_tags :: "(pystr \<times> int) list"
  interview_history :: "(pystr \<times> json) list list"
  statistics :: statistics

definition default_profile :: "pystr \<Rightarrow> pystr \<Rightarrow> user_memory" where
  "default_profile uid now =
    \<lparr>memory_user_id = uid, updated_at = now, memory_weakness_tags = [],
     memory_strength_tags = [], interview_history = [],
     statistics = \<lparr>total_interviews = 0, stats_average_score = Finite 0, best_score = JInt 0,
                    recent_trend = [], most_common_weakness = [],
                    most_common_strength = []\<rparr>\<rparr>"

text \<open>\<open>sorted(tags.items(), key=lambda x: x[1], reverse=True)[:n]\<close>: by decreasing
  count, items of equal count staying in the dictionary's order.\<close>

definition top_tags :: "(pystr \<times> int) list \<Rightarrow> nat \<Rightarrow> (pystr \<times> int) list" where
  "top_tags tags n = take n (sort_key (\<lambda>item. - snd item) tags)"

definition get_top_weaknesses :: "user_memory \<Rightarrow> nat \<Rightarrow> (pystr \<times> int) list" where
  "get_top_weaknesses um n = top_tags (memory_weakness_tags um) n"

definition get_top_strengths :: "user_memory \<Rightarrow> nat \<Rightarrow> (pystr \<times> int) list" where
  "get_top_strengths um n = top_tags (memory_strength_tags um) n"

text \<open>The list \<open>scores\<close> of \<open>_update_statistics\<close>: the \<open>final_score\<close> of the entries
  whose \<open>h.get("final_score")\<close> is truthy.\<close>

definition history_scores :: "(pystr \<times> json) list list \<Rightarrow> json list" where
  "history_scores history =
    [dict_get h (ascii ''final_score'') (JInt 0).
       h \<leftarrow> history, py_truthy (dict_get h (ascii ''final_score'') JNull)]"

text \<open>The trend of \<open>_update_statistics\<close>, computed when there are at least four scores:
  the mean of the last three against the mean of the others.\<close>

definition trend_of :: "json list \<Rightarrow> error + pystr" where
  "trend_of scores =
    (case py_sum (drop (length scores - 3) scores) of
       Inl e \<Rightarrow> Inl e
     | Inr recent_sum \<Rightarrow>
    (case float_div recent_sum 3 of
       Inl e \<Rightarrow> Inl e
     | Inr recent \<Rightarrow>
    (case py_sum (take (length scores - 3) scores) of
       Inl e \<Rightarrow> Inl e
     | Inr earlier_sum \<Rightarrow>
    (case float_div earlier_sum (length (take (length scores - 3) scores)) of
       Inl e \<Rightarrow> Inl e
     | Inr earlier \<Rightarrow>
        Inr (if float_less (float_add earlier (Finite (1 / 2))) recent then ascii ''improving''
             else if float_less recent (float_add earlier (Finite (- 1 / 2)))
             then ascii ''declining''
             else ascii ''stable'')))))"

definition update_score_statistics :: "json list \<Rightarrow> statistics \<Rightarrow> error + statistics" where
  "update_score_statistics scores stats =
    (case py_sum scores of
       Inl e \<Rightarrow> Inl e
     | Inr scores_sum \<Rightarrow>
    (case float_div scores_sum (length scores) of
       Inl e \<Rightarrow> Inl e
     | Inr mean \<Rightarrow>
    (case py_max scores of
       Inl e \<Rightarrow> Inl e
     | Inr best \<Rightarrow>
        (let stats1 = stats\<lparr>stats_average_score := py_round2 mean, best_score := best\<rparr>
         in if 4 \<le> length scores
            then (case trend_of scores of
                    Inl e \<Rightarrow> Inl e
                  | Inr trend \<Rightarrow> Inr (stats1\<lparr>recent_trend := trend\<rparr>))
            else Inr stats1))))"

definition update_tag_statistics :: "user_memory \<Rightarrow> statistics \<Rightarrow> statistics" where
  "update_tag_statistics um stats =
    (let stats1 = (case get_top_weaknesses um 1 of
                     [] \<Rightarrow> stats
                   | item # _ \<Rightarrow> stats\<lparr>most_common_weakness := fst item\<rparr>)
     in (case get_top_strengths um 1 of
           [] \<Rightarrow> stats1
         | item # _ \<Rightarrow> stats1\<lparr>most_common_strength := fst item\<rparr>))"

text \<open>\<open>_update_statistics\<close>; an exception of the arithmetic ends it (and the save that
  called it).\<close>

definition update_statistics :: "user_memory \<Rightarrow> error + user_memory" where
  "update_statistics um =
    (let history = interview_history um;
         stats = (statistics um)\<lparr>total_interviews := int (length history)\<rparr>;
         scores = history_scores history
     in (case (if history \<noteq> [] \<and> scores \<noteq> []
               then update_score_statistics scores stats
               else Inr stats) of
           Inl e \<Rightarrow> Inl e
         | Inr stats1 \<Rightarrow> Inr (um\<lparr>statistics := update_tag_statistics um stats1\<rparr>)))"











section \<open>core/workflow.py: the panel stage and the full interview\<close>







definition DEFAULT_POSITION :: pystr where
  "DEFAULT_POSITION =
    [25968, 25454, 20998, 26512, 24072, 32, 40, 68, 97, 116, 97, 32, 65, 110, 97, 108, 121,
     115, 116, 41]"




text \<open>The statistics that \<open>_update_statistics\<close> computes from the scores.\<close>

definition score_part :: "statistics \<Rightarrow> pyfloat \<times> json \<times> pystr" where
  "score_part st = (stats_average_score st, best_score st, recent_trend st)"

section \<open>Example values\<close>


definition example_session :: "round_result list \<Rightarrow> session_memory" where
  "example_session rs =
    \<lparr>user_id = ascii ''u1'', position = DEFAULT_POSITION, started_at = ascii ''t0'',
     rounds = rs, final_evaluation = None\<rparr>"

definition example_io :: "json \<Rightarrow> pystr \<Rightarrow> json \<Rightarrow> round_io" where
  "example_io result ans follow_up_result =
    \<lparr>io_question = ascii ''Q'', io_answer = ans, io_result = result, io_time = ascii ''t1'',
     io_follow_up_question = ascii ''F'', io_follow_up_answer = ascii ''more'',
     io_follow_up_result = follow_up_result, io_follow_up_time = ascii ''t2''\<rparr>"

definition example_evaluation :: "int \<Rightarrow> evaluation" where
  "example_evaluation sc =
    \<lparr>score = sc, feedback = JStr [], weakness_tags = [], strength_tags = [],
     key_points = JList [], improvement_hint = JStr [], raw_error = None\<rparr>"





section \<open>Properties of the evaluation normalizer\<close>

lemma clamp_score_bounds: "SCORE_MIN \<le> clamp_score n \<and> clamp_score n \<le> SCORE_MAX"
  by (simp add: clamp_score_def SCORE_MIN_def SCORE_MAX_def)

lemma normalize_score_bounds:
  "normalize_score sc = Inr s \<Longrightarrow> SCORE_MIN \<le> s \<and> s \<le> SCORE_MAX"
  using clamp_score_bounds
  by (auto simp: normalize_score_def SCORE_MIN_def SCORE_MAX_def split: if_splits sum.splits)

lemma normalize_returns_only_on_dict:
  "normalize_evaluation_result r = Inr e \<Longrightarrow> \<exists>d. r = JDict d"
  by (cases r) (simp_all add: normalize_evaluation_result_def split: bool.splits)

lemma normalize_error_marked:
  "ascii ''error'' \<in> fst ` set d \<Longrightarrow>
   normalize_evaluation_result (JDict d) =
     Inr \<lparr>score = 5, feedback = JStr EVAL_ERROR_FEEDBACK, weakness_tags = [],
          strength_tags = [], key_points = JList [], improvement_hint = JStr [],
          raw_error = Some (dict_get d (ascii ''raw'') (JStr []))\<rparr>"
  by (simp add: normalize_evaluation_result_def)

lemma normalize_unmarked:
  assumes "ascii ''error'' \<notin> fst ` set d"
    and "normalize_evaluation_result (JDict d) = Inr e"
  shows "normalize_score (dict_get d (ascii ''score'') (JInt 5)) = Inr (score e)"
    and "filter_tags WEAKNESS_TAGS (dict_get d (ascii ''weakness_tags'') (JList []))
           = Inr (weakness_tags e)"
    and "filter_tags STRENGTH_TAGS (dict_get d (ascii ''strength_tags'') (JList []))
           = Inr (strength_tags e)"
  using assms
  by (auto simp: normalize_evaluation_result_def split: sum.splits)


lemma normalize_score_returns:
  assumes "sc \<notin> JFloat ` {NaN, PosInf, NegInf}"
  shows "\<exists>s. normalize_score sc = Inr s"
proof (cases sc)
  case (JFloat x)
  with assms show ?thesis
    by (cases x) (auto simp: normalize_score_def)
qed (auto simp: normalize_score_def)

lemma normalize_returns:
  assumes "ascii ''error'' \<notin> fst ` set d"
    and "dict_get d (ascii ''score'') (JInt 5) \<notin> JFloat ` {NaN, PosInf, NegInf}"
    and "py_iter (dict_get d (ascii ''weakness_tags'') (JList [])) = Inr ws"
    and "py_iter (dict_get d (ascii ''strength_tags'') (JList [])) = Inr ss"
  shows "\<exists>e. normalize_evaluation_result (JDict d) = Inr e"
proof -
  obtain s where "normalize_score (dict_get d (ascii ''score'') (JInt 5)) = Inr s"
    using normalize_score_returns [OF assms(2)] by blast
  with assms(1,3,4) show ?thesis
    by (simp add: normalize_evaluation_result_def filter_tags_def)
qed

lemma filter_tags_list:
  "filter_tags vocabulary (JList ts) = Inr ws \<Longrightarrow>
   map JStr ws = filter (\<lambda>t. t \<in> JStr ` set vocabulary) ts"
proof -
  have "map JStr [s. JStr s \<leftarrow> xs, s \<in> set vocabulary]
          = filter (\<lambda>t. t \<in> JStr ` set vocabulary) xs" for xs
  proof (induction xs)
    case Nil
    show ?case by simp
  next
    case (Cons x xs)
    then show ?case by (cases x) auto
  qed
  then show "filter_tags vocabulary (JList ts) = Inr ws \<Longrightarrow>
    map JStr ws = filter (\<lambda>t. t \<in> JStr ` set vocabulary) ts"
    by (auto simp: filter_tags_def)
qed

lemma filter_tags_subset:
  "filter_tags vocabulary tags = Inr ws \<Longrightarrow> set ws \<subseteq> set vocabulary"
  by (auto simp: filter_tags_def split: sum.splits json.splits)

text \<open>
  C1. Whenever the normalizer returns a record, its score is an integer between
  \<open>SCORE_MIN\<close> and \<open>SCORE_MAX\<close>. An error-marked dictionary always yields the fallback
  record, with score 5. On an unmarked dictionary the normalizer returns a record
  whenever the score is not a non-finite float and both tag values can be iterated.
  For an unmarked dictionary on which the normalizer returns:
  a missing score gives 5; an integer is clamped; a float is truncated towards zero,
  then clamped; a boolean, which Python's \<open>isinstance(score, (int, float))\<close> counts as
  an \<open>int\<close>, is read as 0 or 1; any other value gives 5.
\<close>

theorem normalize_evaluation_score:
  "(normalize_evaluation_result r = Inr e \<longrightarrow>
      SCORE_MIN \<le> score e \<and> score e \<le> SCORE_MAX) \<and>
   (ascii ''error'' \<in> fst ` set d \<longrightarrow>
      (\<exists>e'. normalize_evaluation_result (JDict d) = Inr e' \<and> score e' = 5)) \<and>
   (ascii ''error'' \<notin> fst ` set d \<and>
    dict_get d (ascii ''score'') (JInt 5) \<notin> JFloat ` {NaN, PosInf, NegInf} \<and>
    py_iter (dict_get d (ascii ''weakness_tags'') (JList [])) = Inr ws \<and>
    py_iter (dict_get d (ascii ''strength_tags'') (JList [])) = Inr ss \<longrightarrow>
      (\<exists>e'. normalize_evaluation_result (JDict d) = Inr e')) \<and>
   (ascii ''error'' \<notin> fst ` set d \<and> normalize_evaluation_result (JDict d) = Inr e'' \<longrightarrow>
      (map_of d (ascii ''score'') = None \<longrightarrow> score e'' = 5) \<and>
      (\<forall>n. map_of d (ascii ''score'') = Some (JInt n) \<longrightarrow>
           score e'' = max SCORE_MIN (min SCORE_MAX n)) \<and>
      (\<forall>q. map_of d (ascii ''score'') = Some (JFloat (Finite q)) \<longrightarrow>
           score e'' = max SCORE_MIN (min SCORE_MAX (trunc q))) \<and>
      (\<forall>b. map_of d (ascii ''score'') = Some (JBool b) \<longrightarrow>
           score e'' = (if b then 1 else 0)) \<and>
      (\<forall>v. map_of d (ascii ''score'') = Some v \<and> \<not> is_int_or_float v \<longrightarrow>
           score e'' = 5))"
proof -
  have bounds: "normalize_evaluation_result r = Inr e \<longrightarrow>
      SCORE_MIN \<le> score e \<and> score e \<le> SCORE_MAX"
  proof
    assume ret: "normalize_evaluation_result r = Inr e"
    then obtain d' where r: "r = JDict d'"
      using normalize_returns_only_on_dict by blast
    show "SCORE_MIN \<le> score e \<and> score e \<le> SCORE_MAX"
    proof (cases "ascii ''error'' \<in> fst ` set d'")
      case True
      with ret r show ?thesis
        by (auto simp: normalize_error_marked SCORE_MIN_def SCORE_MAX_def)
    next
      case False
      with ret r show ?thesis
        using normalize_unmarked(1) normalize_score_bounds by blast
    qed
  qed
  have marked: "ascii ''error'' \<in> fst ` set d \<longrightarrow>
      (\<exists>e'. normalize_evaluation_result (JDict d) = Inr e' \<and> score e' = 5)"
    by (simp add: normalize_error_marked)
  have returns: "ascii ''error'' \<notin> fst ` set d \<and>
      dict_get d (ascii ''score'') (JInt 5) \<notin> JFloat ` {NaN, PosInf, NegInf} \<and>
      py_iter (dict_get d (ascii ''weakness_tags'') (JList [])) = Inr ws \<and>
      py_iter (dict_get d (ascii ''strength_tags'') (JList [])) = Inr ss \<longrightarrow>
      (\<exists>e'. normalize_evaluation_result (JDict d) = Inr e')"
    using normalize_returns by blast
  have unmarked: "ascii ''error'' \<notin> fst ` set d \<and> normalize_evaluation_result (JDict d) = Inr e'' \<longrightarrow>
      (map_of d (ascii ''score'') = None \<longrightarrow> score e'' = 5) \<and>
      (\<forall>n. map_of d (ascii ''score'') = Some (JInt n) \<longrightarrow>
           score e'' = max SCORE_MIN (min SCORE_MAX n)) \<and>
      (\<forall>q. map_of d (ascii ''score'') = Some (JFloat (Finite q)) \<longrightarrow>
           score e'' = max SCORE_MIN (min SCORE_MAX (trunc q))) \<and>
      (\<forall>b. map_of d (ascii ''score'') = Some (JBool b) \<longrightarrow>
           score e'' = (if b then 1 else 0)) \<and>
      (\<forall>v. map_of d (ascii ''score'') = Some v \<and> \<not> is_int_or_float v \<longrightarrow>
           score e'' = 5)"
  proof
    assume "ascii ''error'' \<notin> fst ` set d \<and> normalize_evaluation_result (JDict d) = Inr e''"
    then have s: "normalize_score (dict_get d (ascii ''score'') (JInt 5)) = Inr (score e'')"
      using normalize_unmarked(1) by blast
    have 1: "map_of d (ascii ''score'') = None \<longrightarrow> score e'' = 5"
      using s by (auto simp: dict_get_def normalize_score_def clamp_score_def
          SCORE_MIN_def SCORE_MAX_def)
    have 2: "\<forall>n. map_of d (ascii ''score'') = Some (JInt n) \<longrightarrow>
           score e'' = max SCORE_MIN (min SCORE_MAX n)"
      using s by (auto simp: dict_get_def normalize_score_def clamp_score_def)
    have 3: "\<forall>q. map_of d (ascii ''score'') = Some (JFloat (Finite q)) \<longrightarrow>
           score e'' = max SCORE_MIN (min SCORE_MAX (trunc q))"
      using s by (auto simp: dict_get_def normalize_score_def clamp_score_def)
    have 4: "\<forall>b. map_of d (ascii ''score'') = Some (JBool b) \<longrightarrow>
           score e'' = (if b then 1 else 0)"
      using s by (auto simp: dict_get_def normalize_score_def clamp_score_def
          SCORE_MIN_def SCORE_MAX_def)
    have 5: "\<forall>v. map_of d (ascii ''score'') = Some v \<and> \<not> is_int_or_float v \<longrightarrow>
           score e'' = 5"
      using s by (auto simp: dict_get_def normalize_score_def)
    from 1 2 3 4 5 show "(map_of d (ascii ''score'') = None \<longrightarrow> score e'' = 5) \<and>
      (\<forall>n. map_of d (ascii ''score'') = Some (JInt n) \<longrightarrow>
           score e'' = max SCORE_MIN (min SCORE_MAX n)) \<and>
      (\<forall>q. map_of d (ascii ''score'') = Some (JFloat (Finite q)) \<longrightarrow>
           score e'' = max SCORE_MIN (min SCORE_MAX (trunc q))) \<and>
      (\<forall>b. map_of d (ascii ''score'') = Some (JBool b) \<longrightarrow>
           score e'' = (if b then 1 else 0)) \<and>
      (\<forall>v. map_of d (ascii ''score'') = Some v \<and> \<not> is_int_or_float v \<longrightarrow>
           score e'' = 5)"
      by (intro conjI)
  qed
  show ?thesis
    by (rule conjI [OF bounds conjI [OF marked conjI [OF returns unmarked]]])
qed


lemma trunc_example: "trunc (79 / 10) = 7"
  by code_simp

lemma normalize_example:
  "normalize_evaluation_result
     (JDict [(ascii ''score'', JFloat (Finite (79 / 10))),
             (ascii ''weakness_tags'',
                JList [JStr [34920, 36798, 20887, 38271], JStr (ascii ''vague''), JInt 3]),
             (ascii ''strength_tags'', JList [JStr [32467, 26500, 28165, 26224], JNull])])
   = Inr \<lparr>score = 7, feedback = JStr [], weakness_tags = [[34920, 36798, 20887, 38271]],
          strength_tags = [[32467, 26500, 28165, 26224]], key_points = JList [],
          improvement_hint = JStr [], raw_error = None\<rparr>"
  by (simp add: normalize_evaluation_result_def ascii_def dict_get_def normalize_score_def
      clamp_score_def SCORE_MIN_def SCORE_MAX_def filter_tags_def trunc_example
      WEAKNESS_TAGS_def WEAKNESS_TAGS_BY_CATEGORY_def STRENGTH_TAGS_def
      STRENGTH_TAGS_BY_CATEGORY_def)

theorem normalize_evaluation_score_witness:
  "normalize_evaluation_result
     (JDict [(ascii ''score'', JFloat (Finite (79 / 10))),
             (ascii ''weakness_tags'',
                JList [JStr [34920, 36798, 20887, 38271], JStr (ascii ''vague''), JInt 3]),
             (ascii ''strength_tags'', JList [JStr [32467, 26500, 28165, 26224], JNull])])
   = Inr \<lparr>score = 7, feedback = JStr [], weakness_tags = [[34920, 36798, 20887, 38271]],
          strength_tags = [[32467, 26500, 28165, 26224]], key_points = JList [],
          improvement_hint = JStr [], raw_error = None\<rparr>
   \<and> SCORE_MIN \<le> (7::int) \<and> (7::int) \<le> SCORE_MAX
   \<and> (7::int) = max SCORE_MIN (min SCORE_MAX (trunc (79 / 10)))
   \<and> (\<exists>e'. normalize_evaluation_result (JDict [(ascii ''error'', JStr (ascii ''x''))]) = Inr e'
          \<and> score e' = 5)"
proof -
  let ?d = "[(ascii ''score'', JFloat (Finite (79 / 10))),
             (ascii ''weakness_tags'',
                JList [JStr [34920, 36798, 20887, 38271], JStr (ascii ''vague''), JInt 3]),
             (ascii ''strength_tags'', JList [JStr [32467, 26500, 28165, 26224], JNull])]"
  let ?e = "\<lparr>score = 7, feedback = JStr [], weakness_tags = [[34920, 36798, 20887, 38271]],
          strength_tags = [[32467, 26500, 28165, 26224]], key_points = JList [],
          improvement_hint = JStr [], raw_error = None\<rparr>"
  have noerr: "ascii ''error'' \<notin> fst ` set ?d"
    by (simp add: ascii_def)
  have sc: "map_of ?d (ascii ''score'') = Some (JFloat (Finite (79 / 10)))"
    by simp
  have err: "ascii ''error'' \<in> fst ` set [(ascii ''error'', JStr (ascii ''x''))]"
    by simp
  from normalize_evaluation_score [of "JDict ?d" ?e ?d _ _ ?e] normalize_example noerr sc
  have a: "SCORE_MIN \<le> (7::int) \<and> (7::int) \<le> SCORE_MAX
      \<and> (7::int) = max SCORE_MIN (min SCORE_MAX (trunc (79 / 10)))"
    by simp
  from normalize_evaluation_score [of _ _ "[(ascii ''error'', JStr (ascii ''x''))]"] err
  have b: "\<exists>e'. normalize_evaluation_result (JDict [(ascii ''error'', JStr (ascii ''x''))]) = Inr e'
          \<and> score e' = 5"
    by blast
  from a b normalize_example show ?thesis
    by blast
qed

text \<open>
  C7. Tag normalization is a filter by the controlled vocabularies. Every tag of a
  normalized evaluation belongs to the respective vocabulary; and when an unmarked
  dictionary carries its tags as a list, the normalized tags are exactly the items of
  that list that are vocabulary tags, unchanged and in their order: every other item
  is removed.
\<close>

theorem normalize_tags_filter:
  "normalize_evaluation_result r = Inr e \<Longrightarrow>
     set (weakness_tags e) \<subseteq> set WEAKNESS_TAGS \<and>
     set (strength_tags e) \<subseteq> set STRENGTH_TAGS \<and>
     (\<forall>d ts. r = JDict d \<and> ascii ''error'' \<notin> fst ` set d \<and>
          map_of d (ascii ''weakness_tags'') = Some (JList ts) \<longrightarrow>
          map JStr (weakness_tags e) = filter (\<lambda>t. t \<in> JStr ` set WEAKNESS_TAGS) ts) \<and>
     (\<forall>d ts. r = JDict d \<and> ascii ''error'' \<notin> fst ` set d \<and>
          map_of d (ascii ''strength_tags'') = Some (JList ts) \<longrightarrow>
          map JStr (strength_tags e) = filter (\<lambda>t. t \<in> JStr ` set STRENGTH_TAGS) ts)"
proof -
  assume ret: "normalize_evaluation_result r = Inr e"
  then obtain d' where r: "r = JDict d'"
    using normalize_returns_only_on_dict by blast
  have sub: "set (weakness_tags e) \<subseteq> set WEAKNESS_TAGS \<and>
     set (strength_tags e) \<subseteq> set STRENGTH_TAGS"
  proof (cases "ascii ''error'' \<in> fst ` set d'")
    case True
    with ret r show ?thesis
      by (auto simp: normalize_error_marked)
  next
    case False
    with ret r show ?thesis
      using normalize_unmarked(2,3) filter_tags_subset by blast
  qed
  have weak: "map JStr (weakness_tags e) = filter (\<lambda>t. t \<in> JStr ` set WEAKNESS_TAGS) ts"
    if "r = JDict d" "ascii ''error'' \<notin> fst ` set d"
      "map_of d (ascii ''weakness_tags'') = Some (JList ts)" for d ts
  proof -
    from that ret
    have "filter_tags WEAKNESS_TAGS (dict_get d (ascii ''weakness_tags'') (JList []))
           = Inr (weakness_tags e)"
      using normalize_unmarked(2) by blast
    with that(3) show ?thesis
      by (simp add: dict_get_def filter_tags_list)
  qed
  have strong: "map JStr (strength_tags e) = filter (\<lambda>t. t \<in> JStr ` set STRENGTH_TAGS) ts"
    if "r = JDict d" "ascii ''error'' \<notin> fst ` set d"
      "map_of d (ascii ''strength_tags'') = Some (JList ts)" for d ts
  proof -
    from that ret
    have "filter_tags STRENGTH_TAGS (dict_get d (ascii ''strength_tags'') (JList []))
           = Inr (strength_tags e)"
      using normalize_unmarked(3) by blast
    with that(3) show ?thesis
      by (simp add: dict_get_def filter_tags_list)
  qed
  from sub weak strong show ?thesis
    by blast
qed

theorem normalize_tags_filter_witness:
  "normalize_evaluation_result
     (JDict [(ascii ''score'', JFloat (Finite (79 / 10))),
             (ascii ''weakness_tags'',
                JList [JStr [34920, 36798, 20887, 38271], JStr (ascii ''vague''), JInt 3]),
             (ascii ''strength_tags'', JList [JStr [32467, 26500, 28165, 26224], JNull])])
   = Inr \<lparr>score = 7, feedback = JStr [], weakness_tags = [[34920, 36798, 20887, 38271]],
          strength_tags = [[32467, 26500, 28165, 26224]], key_points = JList [],
          improvement_hint = JStr [], raw_error = None\<rparr>
   \<and> set [[34920, 36798, 20887, 38271]] \<subseteq> set WEAKNESS_TAGS
   \<and> set [[32467, 26500, 28165, 26224]] \<subseteq> set STRENGTH_TAGS
   \<and> [JStr [34920, 36798, 20887, 38271]]
       = filter (\<lambda>t. t \<in> JStr ` set WEAKNESS_TAGS)
           [JStr [34920, 36798, 20887, 38271], JStr (ascii ''vague''), JInt 3]
   \<and> [JStr [32467, 26500, 28165, 26224]]
       = filter (\<lambda>t. t \<in> JStr ` set STRENGTH_TAGS) [JStr [32467, 26500, 28165, 26224], JNull]"
proof -
  let ?d = "[(ascii ''score'', JFloat (Finite (79 / 10))),
             (ascii ''weakness_tags'',
                JList [JStr [34920, 36798, 20887, 38271], JStr (ascii ''vague''), JInt 3]),
             (ascii ''strength_tags'', JList [JStr [32467, 26500, 28165, 26224], JNull])]"
  have noerr: "ascii ''error'' \<notin> fst ` set ?d"
    by (simp add: ascii_def)
  have w: "map_of ?d (ascii ''weakness_tags'')
      = Some (JList [JStr [34920, 36798, 20887, 38271], JStr (ascii ''vague''), JInt 3])"
    by (simp add: ascii_def)
  have s: "map_of ?d (ascii ''strength_tags'')
      = Some (JList [JStr [32467, 26500, 28165, 26224], JNull])"
    by (simp add: ascii_def)
  from normalize_tags_filter [OF normalize_example] noerr w s normalize_example
  show ?thesis
    by simp
qed

lemma parse_json_response_returns_loads:
  "loads (clean_response response) = Some v \<Longrightarrow> parse_json_response loads response = v"
  by (simp add: parse_json_response_def)

lemma parse_array_example:
  "parse_json_response example_loads (ascii '' ```json[1, 2]``` '') = JList [JInt 1, JInt 2]"
  by (simp add: parse_json_response_def clean_response_def strip_def py_isspace_def
      example_loads_def ascii_def suffix_def)

text \<open>
  C8. The normalizer does not recover from a result that is not a dictionary. The
  parsing layer returns a JSON array as \<open>json.loads\<close> yields it; on such a list the
  test \<open>"error" in result\<close> is evaluated and the following \<open>result.get\<close> raises
  AttributeError, which leaves \<open>evaluate_answer\<close> and reaches its caller. The
  normalizer also raises on a dictionary whose tags are \<open>null\<close> (TypeError) or whose
  score is \<open>NaN\<close> (ValueError).
\<close>

theorem normalize_raises_on_array:
  "parse_json_response example_loads (ascii '' ```json[1, 2]``` '') = JList [JInt 1, JInt 2] \<and>
   evaluate_answer (parse_json_response example_loads (ascii '' ```json[1, 2]``` ''))
     = Inl AttributeError \<and>
   normalize_evaluation_result (JList [JInt 1, JInt 2]) = Inl AttributeError \<and>
   normalize_evaluation_result
     (JDict [(ascii ''score'', JInt 7), (ascii ''weakness_tags'', JNull)]) = Inl TypeError \<and>
   normalize_evaluation_result (JDict [(ascii ''score'', JFloat NaN)]) = Inl ValueError"
proof -
  have array: "normalize_evaluation_result (JList [JInt 1, JInt 2]) = Inl AttributeError"
    by (simp add: normalize_evaluation_result_def)
  have null_tags: "normalize_evaluation_result
     (JDict [(ascii ''score'', JInt 7), (ascii ''weakness_tags'', JNull)]) = Inl TypeError"
    by (simp add: normalize_evaluation_result_def ascii_def dict_get_def normalize_score_def
        clamp_score_def SCORE_MIN_def SCORE_MAX_def filter_tags_def)
  have nan: "normalize_evaluation_result (JDict [(ascii ''score'', JFloat NaN)])
      = Inl ValueError"
    by (simp add: normalize_evaluation_result_def ascii_def dict_get_def normalize_score_def)
  show ?thesis
    by (simp add: parse_array_example evaluate_answer_def array null_tags nan)
qed


section \<open>Properties of the follow-up policy\<close>



section \<open>Properties of the score levels\<close>

text \<open>
  C10, as the claim states it, fails: for a score that lies in no band, such as 6.5,
  \<open>get_score_level\<close> returns the entry of the band (5, 6), and the decision of that
  entry is the five-character string "houbu/guancha" (code points 20505, 34917, 47,
  35266, 23519), not the two-character "houbu" (20505, 34917) of the claim.
\<close>

theorem get_score_level_decision_counterexample:
  "map_sum id level_decision (get_score_level (Finite (13 / 2))) \<noteq> Inr [20505, 34917]"
  by (simp add: get_score_level_def SCORE_LEVELS_def)

text \<open>
  C10, amended. \<open>get_score_level\<close> is total: it returns an entry for every score. For
  every score that lies in no configured band (a finite score below 0, above 10, or
  strictly between two adjacent bands, such as 6.5; and also NaN and the infinities)
  it returns the entry stored under the band (5, 6), whose decision is
  "houbu/guancha": decision inference from a non-integer score can silently resolve to
  the mid tier.
\<close>

theorem get_score_level_out_of_band:
  "(\<exists>info. get_score_level s = Inr info) \<and>
   map_of SCORE_LEVELS (5, 6)
     = Some \<lparr>level = [20013, 31561], emoji = [128170],
             level_decision = [20505, 34917, 47, 35266, 23519]\<rparr> \<and>
   ((\<forall>band \<in> set SCORE_LEVELS.
        \<not> (int_le_float (fst (fst band)) s \<and> float_le_int s (snd (fst band)))) \<longrightarrow>
      get_score_level s
        = Inr \<lparr>level = [20013, 31561], emoji = [128170],
               level_decision = [20505, 34917, 47, 35266, 23519]\<rparr>) \<and>
   (q < 0 \<or> (2 < q \<and> q < 3) \<or> (4 < q \<and> q < 5) \<or> (6 < q \<and> q < 7) \<or> (8 < q \<and> q < 9) \<or>
    10 < q \<longrightarrow>
      get_score_level (Finite q)
        = Inr \<lparr>level = [20013, 31561], emoji = [128170],
               level_decision = [20505, 34917, 47, 35266, 23519]\<rparr>) \<and>
   get_score_level NaN
     = Inr \<lparr>level = [20013, 31561], emoji = [128170],
            level_decision = [20505, 34917, 47, 35266, 23519]\<rparr>"
proof -
  let ?mid = "\<lparr>level = [20013, 31561], emoji = [128170],
               level_decision = [20505, 34917, 47, 35266, 23519]\<rparr>"
  have total: "\<exists>info. get_score_level s = Inr info"
    by (cases s) (auto simp: get_score_level_def SCORE_LEVELS_def)
  have entry: "map_of SCORE_LEVELS (5, 6) = Some ?mid"
    by (simp add: SCORE_LEVELS_def)
  have none: "(\<forall>band \<in> set SCORE_LEVELS.
        \<not> (int_le_float (fst (fst band)) s \<and> float_le_int s (snd (fst band)))) \<longrightarrow>
      get_score_level s = Inr ?mid"
  proof
    assume "\<forall>band \<in> set SCORE_LEVELS.
        \<not> (int_le_float (fst (fst band)) s \<and> float_le_int s (snd (fst band)))"
    then have "find (\<lambda>band. int_le_float (fst (fst band)) s \<and> float_le_int s (snd (fst band)))
        SCORE_LEVELS = None"
      by (fastforce simp: find_None_iff)
    with entry show "get_score_level s = Inr ?mid"
      by (simp add: get_score_level_def)
  qed
  have gaps: "q < 0 \<or> (2 < q \<and> q < 3) \<or> (4 < q \<and> q < 5) \<or> (6 < q \<and> q < 7) \<or>
      (8 < q \<and> q < 9) \<or> 10 < q \<longrightarrow> get_score_level (Finite q) = Inr ?mid"
    by (auto simp: get_score_level_def SCORE_LEVELS_def)
  have nan: "get_score_level NaN = Inr ?mid"
    by (simp add: get_score_level_def SCORE_LEVELS_def)
  from total entry none gaps nan show ?thesis
    by (intro conjI)
qed

theorem get_score_level_out_of_band_witness:
  "(6 < (13 / 2 :: rat) \<and> (13 / 2 :: rat) < 7) \<and>
   get_score_level (Finite (13 / 2))
     = Inr \<lparr>level = [20013, 31561], emoji = [128170],
            level_decision = [20505, 34917, 47, 35266, 23519]\<rparr> \<and>
   get_score_level (Finite (- 1))
     = Inr \<lparr>level = [20013, 31561], emoji = [128170],
            level_decision = [20505, 34917, 47, 35266, 23519]\<rparr> \<and>
   get_score_level (Finite 11)
     = Inr \<lparr>level = [20013, 31561], emoji = [128170],
            level_decision = [20505, 34917, 47, 35266, 23519]\<rparr>"
proof -
  have between: "6 < (13 / 2 :: rat) \<and> (13 / 2 :: rat) < 7"
    by simp
  have no_band: "\<forall>band \<in> set SCORE_LEVELS.
        \<not> (int_le_float (fst (fst band)) (Finite (13 / 2)) \<and>
           float_le_int (Finite (13 / 2)) (snd (fst band)))"
    by (simp add: SCORE_LEVELS_def)
  from get_score_level_out_of_band [of "Finite (13 / 2)" "13 / 2"] no_band
  have 1: "get_score_level (Finite (13 / 2))
     = Inr \<lparr>level = [20013, 31561], emoji = [128170],
            level_decision = [20505, 34917, 47, 35266, 23519]\<rparr>"
    by blast
  from get_score_level_out_of_band [of NaN "- 1"]
  have 2: "get_score_level (Finite (- 1))
     = Inr \<lparr>level = [20013, 31561], emoji = [128170],
            level_decision = [20505, 34917, 47, 35266, 23519]\<rparr>"
    by simp
  from get_score_level_out_of_band [of NaN 11]
  have 3: "get_score_level (Finite 11)
     = Inr \<lparr>level = [20013, 31561], emoji = [128170],
            level_decision = [20505, 34917, 47, 35266, 23519]\<rparr>"
    by simp
  from between 1 2 3 show ?thesis
    by blast
qed

section \<open>Properties of the weighted composite\<close>








section \<open>Properties of a round\<close>

text \<open>A round in which every condition of the follow-up policy holds: the score 3 is
  below the threshold, the answer is a trigger keyword, and it is two characters
  long.\<close>

lemma round_example:
  "run_single_round (ascii ''HR'') (example_session [])
     (example_io (JDict [(ascii ''score'', JInt 3)]) [21487, 33021]
        (JDict [(ascii ''score'', JInt 8)]))
   = (example_session
        [\<lparr>role = ascii ''HR'', question = ascii ''Q'', answer = [21487, 33021],
          round_score = 3, round_feedback = JStr [], round_weakness_tags = [],
          round_strength_tags = [], round_key_points = JList [],
          round_improvement_hint = JStr [], is_follow_up = False, timestamp = ascii ''t1''\<rparr>,
         \<lparr>role = ascii ''HR_followup'', question = ascii ''F'', answer = ascii ''more'',
          round_score = 8, round_feedback = JStr [], round_weakness_tags = [],
          round_strength_tags = [], round_key_points = JList [],
          round_improvement_hint = JStr [], is_follow_up = True, timestamp = ascii ''t2''\<rparr>],
      Inr \<lparr>round_key = ascii ''HR'', round_name = [72, 82, 32, 21021, 31579],
           questions =
             [\<lparr>entry_question = ascii ''Q'', entry_answer = [21487, 33021],
               entry_evaluation = example_evaluation 3, entry_is_follow_up = False,
               follow_up_reason = None\<rparr>,
              \<lparr>entry_question = ascii ''F'', entry_answer = ascii ''more'',
               entry_evaluation = example_evaluation 8, entry_is_follow_up = True,
               follow_up_reason = Some REASON_MORE_DETAIL\<rparr>],
           round_final_score = 8\<rparr>)"
  by (simp add: run_single_round_def handle_follow_up_def add_round_def Let_def
      evaluate_answer_def normalize_evaluation_result_def normalize_score_def clamp_score_def
      SCORE_MIN_def SCORE_MAX_def filter_tags_def dict_get_def agents_def
      INTERVIEW_ROUNDS_CONFIG_def get_round_name_def should_follow_up_def
      should_follow_up_with_def FOLLOW_UP_CONFIG_def get_or_def example_session_def
      example_io_def example_evaluation_def FOLLOWUP_SUFFIX_def ascii_def)

text \<open>
  C5. Whatever a run of \<open>run_single_round\<close> does, whether it returns a result or
  ends in an exception, it only appends to the session's rounds, and among the rounds
  it appends at most one is a follow-up: the appended rounds are none (the evaluation
  raised), the main round alone, or the main round and then one follow-up round.
\<close>

theorem run_single_round_follow_up_cap:
  "run_single_round key s io = (s', out) \<Longrightarrow>
     \<exists>new. rounds s' = rounds s @ new \<and>
           length (filter is_follow_up new) \<le> 1 \<and>
           (map is_follow_up new = [] \<or> map is_follow_up new = [False] \<or>
            map is_follow_up new = [False, True])"
  by (auto simp: run_single_round_def handle_follow_up_def add_round_def Let_def
      split: option.splits sum.splits prod.splits if_splits)

theorem run_single_round_follow_up_cap_witness:
  "\<exists>new.
     rounds (fst (run_single_round (ascii ''HR'') (example_session [])
                    (example_io (JDict [(ascii ''score'', JInt 3)]) [21487, 33021]
                       (JDict [(ascii ''score'', JInt 8)]))))
       = rounds (example_session []) @ new \<and>
     length (filter is_follow_up new) \<le> 1 \<and>
     map is_follow_up new = [False, True]"
proof -
  from run_single_round_follow_up_cap [OF round_example]
  obtain new where new: "rounds (example_session
        [\<lparr>role = ascii ''HR'', question = ascii ''Q'', answer = [21487, 33021],
          round_score = 3, round_feedback = JStr [], round_weakness_tags = [],
          round_strength_tags = [], round_key_points = JList [],
          round_improvement_hint = JStr [], is_follow_up = False, timestamp = ascii ''t1''\<rparr>,
         \<lparr>role = ascii ''HR_followup'', question = ascii ''F'', answer = ascii ''more'',
          round_score = 8, round_feedback = JStr [], round_weakness_tags = [],
          round_strength_tags = [], round_key_points = JList [],
          round_improvement_hint = JStr [], is_follow_up = True, timestamp = ascii ''t2''\<rparr>])
      = rounds (example_session []) @ new"
    "length (filter is_follow_up new) \<le> 1"
    by blast
  from new(1) have flags: "map is_follow_up new = [False, True]"
    by (auto simp: example_session_def)
  from new(1) have "rounds (fst (run_single_round (ascii ''HR'') (example_session [])
                    (example_io (JDict [(ascii ''score'', JInt 3)]) [21487, 33021]
                       (JDict [(ascii ''score'', JInt 8)]))))
       = rounds (example_session []) @ new"
    by (simp add: round_example)
  with new(2) flags show ?thesis
    by (intro exI [of _ new] conjI)
qed

text \<open>
  C6. When a round completes, its reported final score is the score of the last
  evaluation produced in it: without a follow-up the result holds the main
  evaluation alone and reports its score; with a follow-up it holds the main
  evaluation and then the follow-up's, and reports the follow-up's score. In both
  cases it is also the score of the last round recorded in the session.
\<close>

theorem run_single_round_final_score:
  "run_single_round key s io = (s', Inr res) \<Longrightarrow>
   (\<exists>main. evaluate_answer (io_result io) = Inr main \<and>
      ((map entry_evaluation (questions res) = [main] \<and>
        map entry_is_follow_up (questions res) = [False] \<and>
        round_final_score res = score main) \<or>
       (\<exists>fu. evaluate_answer (io_follow_up_result io) = Inr fu \<and>
          map entry_evaluation (questions res) = [main, fu] \<and>
          map entry_is_follow_up (questions res) = [False, True] \<and>
          round_final_score res = score fu))) \<and>
   round_final_score res = score (entry_evaluation (last (questions res))) \<and>
   round_score (last (rounds s')) = round_final_score res"
  by (auto simp: run_single_round_def handle_follow_up_def add_round_def Let_def
      split: option.splits sum.splits prod.splits if_splits)

theorem run_single_round_final_score_witness:
  "\<exists>s' res.
     run_single_round (ascii ''HR'') (example_session [])
       (example_io (JDict [(ascii ''score'', JInt 3)]) [21487, 33021]
          (JDict [(ascii ''score'', JInt 8)])) = (s', Inr res) \<and>
     map (\<lambda>q. score (entry_evaluation q)) (questions res) = [3, 8] \<and>
     round_final_score res = 8 \<and>
     round_final_score res = score (entry_evaluation (last (questions res))) \<and>
     round_score (last (rounds s')) = round_final_score res"
proof -
  from run_single_round_final_score [OF round_example]
  show ?thesis
    by (simp add: round_example example_evaluation_def)
qed

section \<open>Properties of the candidate's statistics\<close>

lemma history_scores_falsy:
  "\<not> py_truthy (dict_get h (ascii ''final_score'') JNull) \<Longrightarrow>
   history_scores (pre @ h # post) = history_scores (pre @ post)"
  by (simp add: history_scores_def)

lemma history_scores_nonempty: "history_scores history \<noteq> [] \<Longrightarrow> history \<noteq> []"
  by (auto simp: history_scores_def)

lemma update_score_statistics_part:
  "score_part a = score_part b \<Longrightarrow>
   map_sum id score_part (update_score_statistics sc a)
     = map_sum id score_part (update_score_statistics sc b)"
  by (auto simp: update_score_statistics_def score_part_def Let_def split: sum.splits)

lemma update_score_statistics_total:
  "update_score_statistics sc st = Inr st' \<Longrightarrow> total_interviews st' = total_interviews st"
  by (auto simp: update_score_statistics_def Let_def split: sum.splits if_splits)

lemma update_tag_statistics_keeps:
  "stats_average_score (update_tag_statistics um st) = stats_average_score st"
  "best_score (update_tag_statistics um st) = best_score st"
  "recent_trend (update_tag_statistics um st) = recent_trend st"
  "total_interviews (update_tag_statistics um st) = total_interviews st"
  by (auto simp: update_tag_statistics_def Let_def split: list.splits)

lemma update_statistics_total:
  "update_statistics um = Inr um' \<Longrightarrow>
   total_interviews (statistics um') = int (length (interview_history um))"
  by (auto simp: update_statistics_def Let_def update_tag_statistics_keeps
      dest!: update_score_statistics_total split: sum.splits if_splits)

lemma update_statistics_part:
  assumes "\<not> py_truthy (dict_get h (ascii ''final_score'') JNull)"
  shows "map_sum id (\<lambda>u. score_part (statistics u))
           (update_statistics (um\<lparr>interview_history := pre @ h # post\<rparr>))
       = map_sum id (\<lambda>u. score_part (statistics u))
           (update_statistics (um\<lparr>interview_history := pre @ post\<rparr>))"
proof -
  let ?sc = "history_scores (pre @ post)"
  have sc: "history_scores (pre @ h # post) = ?sc"
    using assms by (rule history_scores_falsy)
  show ?thesis
  proof (cases "?sc = []")
    case True
    with sc show ?thesis
      by (simp add: update_statistics_def Let_def update_tag_statistics_keeps score_part_def)
  next
    case False
    then have ne: "pre @ post \<noteq> []"
      using history_scores_nonempty by blast
    let ?a = "(statistics um)\<lparr>total_interviews := int (length (pre @ h # post))\<rparr>"
    let ?b = "(statistics um)\<lparr>total_interviews := int (length (pre @ post))\<rparr>"
    have "score_part ?a = score_part ?b"
      by (simp add: score_part_def)
    from update_score_statistics_part [OF this, of ?sc]
    show ?thesis
      using sc False ne
      by (auto simp: update_statistics_def Let_def update_tag_statistics_keeps score_part_def
          split: sum.splits)
  qed
qed

lemma update_statistics_all_falsy:
  assumes "\<forall>h \<in> set (interview_history um).
      \<not> py_truthy (dict_get h (ascii ''final_score'') JNull)"
  shows "\<exists>um'. update_statistics um = Inr um' \<and>
     stats_average_score (statistics um') = stats_average_score (statistics um) \<and>
     best_score (statistics um') = best_score (statistics um) \<and>
     total_interviews (statistics um') = int (length (interview_history um))"
proof -
  from assms have "history_scores (interview_history um) = []"
    by (auto simp: history_scores_def)
  then show ?thesis
    using update_tag_statistics_keeps [of um]
    by (simp add: update_statistics_def Let_def)
qed

text \<open>
  C9. In \<open>_update_statistics\<close> a history entry whose \<open>final_score\<close> is absent, \<open>None\<close> or
  0 is falsy, and a falsy entry is left out of the scores: the list of scores, and
  with it the average, the best score and the trend (or the exception) that
  \<open>_update_statistics\<close> produces, are the same with the entry as without it. The
  entry is still counted: whenever \<open>_update_statistics\<close> returns, \<open>total_interviews\<close>
  is the length of the whole history. When every entry of the history is falsy,
  \<open>_update_statistics\<close> returns, and the average and the best score keep the values
  they had.
\<close>

theorem update_statistics_truthiness_filter:
  "(map_of h (ascii ''final_score'') = None \<or>
    map_of h (ascii ''final_score'') = Some JNull \<or>
    map_of h (ascii ''final_score'') = Some (JInt 0) \<longrightarrow>
      \<not> py_truthy (dict_get h (ascii ''final_score'') JNull)) \<and>
   (\<not> py_truthy (dict_get h (ascii ''final_score'') JNull) \<longrightarrow>
      history_scores (pre @ h # post) = history_scores (pre @ post) \<and>
      map_sum id (\<lambda>u. score_part (statistics u))
          (update_statistics (um\<lparr>interview_history := pre @ h # post\<rparr>))
        = map_sum id (\<lambda>u. score_part (statistics u))
            (update_statistics (um\<lparr>interview_history := pre @ post\<rparr>))) \<and>
   (update_statistics um = Inr um' \<longrightarrow>
      total_interviews (statistics um') = int (length (interview_history um))) \<and>
   ((\<forall>h \<in> set (interview_history um).
        \<not> py_truthy (dict_get h (ascii ''final_score'') JNull)) \<longrightarrow>
      (\<exists>um''. update_statistics um = Inr um'' \<and>
         stats_average_score (statistics um'') = stats_average_score (statistics um) \<and>
         best_score (statistics um'') = best_score (statistics um) \<and>
         total_interviews (statistics um'') = int (length (interview_history um))))"
proof -
  have falsy: "map_of h (ascii ''final_score'') = None \<or>
    map_of h (ascii ''final_score'') = Some JNull \<or>
    map_of h (ascii ''final_score'') = Some (JInt 0) \<longrightarrow>
      \<not> py_truthy (dict_get h (ascii ''final_score'') JNull)"
    by (auto simp: dict_get_def)
  have skipped: "\<not> py_truthy (dict_get h (ascii ''final_score'') JNull) \<longrightarrow>
      history_scores (pre @ h # post) = history_scores (pre @ post) \<and>
      map_sum id (\<lambda>u. score_part (statistics u))
          (update_statistics (um\<lparr>interview_history := pre @ h # post\<rparr>))
        = map_sum id (\<lambda>u. score_part (statistics u))
            (update_statistics (um\<lparr>interview_history := pre @ post\<rparr>))"
    using history_scores_falsy update_statistics_part by blast
  have counted: "update_statistics um = Inr um' \<longrightarrow>
      total_interviews (statistics um') = int (length (interview_history um))"
    using update_statistics_total by blast
  have kept: "(\<forall>h \<in> set (interview_history um).
        \<not> py_truthy (dict_get h (ascii ''final_score'') JNull)) \<longrightarrow>
      (\<exists>um''. update_statistics um = Inr um'' \<and>
         stats_average_score (statistics um'') = stats_average_score (statistics um) \<and>
         best_score (statistics um'') = best_score (statistics um) \<and>
         total_interviews (statistics um'') = int (length (interview_history um)))"
    using update_statistics_all_falsy by blast
  from falsy skipped counted kept show ?thesis
    by (intro conjI)
qed

theorem update_statistics_truthiness_filter_witness:
  "history_scores [[(ascii ''final_score'', JInt 0)], [(ascii ''final_score'', JInt 8)]]
     = history_scores [[(ascii ''final_score'', JInt 8)]] \<and>
   history_scores [[(ascii ''final_score'', JInt 8)]] = [JInt 8] \<and>
   (\<exists>um'. update_statistics
            ((default_profile (ascii ''u1'') [])
               \<lparr>interview_history :=
                  [[(ascii ''final_score'', JInt 0)], [], [(ascii ''final_score'', JNull)]]\<rparr>)
          = Inr um' \<and>
      stats_average_score (statistics um') = Finite 0 \<and>
      best_score (statistics um') = JInt 0 \<and>
      total_interviews (statistics um') = 3)"
proof -
  let ?zero = "[(ascii ''final_score'', JInt 0)]"
  let ?null = "[(ascii ''final_score'', JNull)]"
  let ?eight = "[(ascii ''final_score'', JInt 8)]"
  let ?um = "(default_profile (ascii ''u1'') [])\<lparr>interview_history := [?zero, [], ?null]\<rparr>"
  have z: "map_of ?zero (ascii ''final_score'') = Some (JInt 0)"
    by simp
  from update_statistics_truthiness_filter [of ?zero "[]" "[?eight]"] z
  have 1: "history_scores [?zero, ?eight] = history_scores [?eight]"
    by simp
  have 2: "history_scores [?eight] = [JInt 8]"
    by (simp add: history_scores_def dict_get_def)
  have all: "\<forall>h \<in> set (interview_history ?um).
      \<not> py_truthy (dict_get h (ascii ''final_score'') JNull)"
    by (simp add: dict_get_def)
  from update_statistics_truthiness_filter [of "[]" "[]" "[]" ?um] all
  obtain um' where um': "update_statistics ?um = Inr um'"
    "stats_average_score (statistics um') = stats_average_score (statistics ?um)"
    "best_score (statistics um') = best_score (statistics ?um)"
    "total_interviews (statistics um') = int (length (interview_history ?um))"
    by blast
  then have 3: "\<exists>um'. update_statistics ?um = Inr um' \<and>
      stats_average_score (statistics um') = Finite 0 \<and>
      best_score (statistics um') = JInt 0 \<and>
      total_interviews (statistics um') = 3"
    by (simp add: default_profile_def)
  from 1 2 3 show ?thesis
    by (intro conjI)
qed

section \<open>Properties of the full interview\<close>



















end
